theory Spec2Isabelle
  imports Main "HOL-Library.Char_ord" "HOL-Library.List_Lexorder"
begin

section \<open>Strings and characters\<close>

text \<open>
  Source strings are JavaScript strings. The model uses HOL strings, whose characters are
  the code points U+0000 to U+00FF, so a character is one UTF-16 code unit and
  \<open>length\<close> is the source's \<open>.length\<close>. Text outside Latin-1 is outside the model.
\<close>

definition isDigit :: "char \<Rightarrow> bool" where
  \<comment> \<open>the regular-expression class \<open>\\d\<close>\<close>
  "isDigit c = (c \<in> set ''0123456789'')"

definition isWordChar :: "char \<Rightarrow> bool" where
  \<comment> \<open>the regular-expression class \<open>\\w\<close>\<close>
  "isWordChar c =
     (c \<in> set ''abcdefghijklmnopqrstuvwxyzABCDEFGHIJKLMNOPQRSTUVWXYZ0123456789_'')"

definition isKeyChar :: "char \<Rightarrow> bool" where
  \<comment> \<open>the class \<open>[\\w.]\<close> of which every key pattern of the decoder is made\<close>
  "isKeyChar c = (isWordChar c \<or> c = CHR ''.'')"

definition isSpaceChar :: "char \<Rightarrow> bool" where
  \<comment> \<open>\<open>\\s\<close>, and what \<open>trim\<close> strips: TAB, LF, VT, FF, CR, SP and NBSP in Latin-1\<close>
  "isSpaceChar c =
     (c \<in> {CHR 0x09, CHR 0x0A, CHR 0x0B, CHR 0x0C, CHR 0x0D, CHR 0x20, CHR 0xA0})"

definition isLineTerminator :: "char \<Rightarrow> bool" where
  \<comment> \<open>what the regular-expression dot does not match\<close>
  "isLineTerminator c = (c = CHR 0x0A \<or> c = CHR 0x0D)"

definition trim :: "string \<Rightarrow> string" where
  "trim s = rev (dropWhile isSpaceChar (rev (dropWhile isSpaceChar s)))"

definition startsWith :: "string \<Rightarrow> string \<Rightarrow> bool" where
  "startsWith s p = (take (length p) s = p)"

definition endsWith :: "string \<Rightarrow> string \<Rightarrow> bool" where
  "endsWith s p = (length p \<le> length s \<and> drop (length s - length p) s = p)"

definition allDigits :: "string \<Rightarrow> bool" where
  \<comment> \<open>\<open>/^\\d+$/\<close>\<close>
  "allDigits s = (s \<noteq> [] \<and> list_all isDigit s)"

definition digitVal :: "char \<Rightarrow> nat" where
  "digitVal c = of_char c - 48"

definition parseInt :: "string \<Rightarrow> nat" where
  \<comment> \<open>\<open>parseInt(s, 10)\<close> on a string of decimal digits (the only use in the source)\<close>
  "parseInt s = foldl (\<lambda>n c. 10 * n + digitVal c) 0 s"

definition digitChar :: "nat \<Rightarrow> char" where
  "digitChar d = ''0123456789'' ! (d mod 10)"

fun showNat :: "nat \<Rightarrow> string" where
  "showNat n = (if n < 10 then [digitChar n] else showNat (n div 10) @ [digitChar n])"

declare showNat.simps [simp del]

primrec lastIndexOf :: "char \<Rightarrow> string \<Rightarrow> nat option" where
  "lastIndexOf c [] = None"
| "lastIndexOf c (x # xs) =
     (case lastIndexOf c xs of
        Some i \<Rightarrow> Some (Suc i)
      | None \<Rightarrow> if x = c then Some 0 else None)"

definition replaceAll :: "char \<Rightarrow> string \<Rightarrow> string \<Rightarrow> string" where
  \<comment> \<open>\<open>s.replace(/c/g, r)\<close> for a one-character pattern\<close>
  "replaceAll c r s = concat (map (\<lambda>x. if x = c then r else [x]) s)"

definition joinWith :: "string \<Rightarrow> string list \<Rightarrow> string" where
  \<comment> \<open>\<open>parts.join(sep)\<close>\<close>
  "joinWith sep parts =
     (case parts of [] \<Rightarrow> [] | p # ps \<Rightarrow> p @ concat (map (\<lambda>q. sep @ q) ps))"

section \<open>Values\<close>

text \<open>
  A JavaScript number is modelled as an exact decimal \<open>Dec m k\<close>, standing for
  \<open>m / 10 ^ k\<close>, or as one of the three non-finite values. \<open>parseFloat\<close>,
  \<open>String\<close> and the sums of the table footer are exact on decimals; this agrees with
  IEEE doubles for numbers of up to 15 significant digits whose magnitude is below
  \<open>10 ^ 21\<close> and not below \<open>10 ^ -6\<close>, where no rounding takes place and \<open>String\<close>
  prints the plain decimal numeral. Beyond that range \<open>String\<close> prints the exponent
  form and \<open>parseFloat\<close> gives an infinity where the double overflows, as in the
  source; the rounding of a double to 53 bits is not followed. Numbers are kept in
  normal form (no trailing zero in the fraction).
\<close>

datatype jsnum = Dec int nat | NaN | PosInfinity | NegInfinity

fun normDec :: "int \<Rightarrow> nat \<Rightarrow> jsnum" where
  "normDec m 0 = Dec m 0"
| "normDec m (Suc k) = (if m mod 10 = 0 then normDec (m div 10) k else Dec m (Suc k))"

definition isFinite :: "jsnum \<Rightarrow> bool" where
  \<comment> \<open>\<open>Number.isFinite\<close>\<close>
  "isFinite n = (case n of Dec m k \<Rightarrow> True | _ \<Rightarrow> False)"

definition padZeros :: "nat \<Rightarrow> string \<Rightarrow> string" where
  "padZeros k s = replicate (k - length s) (CHR ''0'') @ s"

definition significand :: "nat \<Rightarrow> string" where
  \<comment> \<open>the decimal digits of a number without the trailing zeros\<close>
  "significand a = rev (dropWhile (\<lambda>c. c = CHR ''0'') (rev (showNat a)))"

definition numberToString :: "jsnum \<Rightarrow> string" where
  \<comment> \<open>\<open>String(value)\<close> for a number: the plain numeral when the decimal exponent \<open>e\<close>
      is at least \<open>-6\<close> and at most \<open>20\<close>, the exponent form otherwise\<close>
  "numberToString n =
     (case n of
        NaN \<Rightarrow> ''NaN''
      | PosInfinity \<Rightarrow> ''Infinity''
      | NegInfinity \<Rightarrow> ''-Infinity''
      | Dec m k \<Rightarrow>
          (let a = nat \<bar>m\<bar>; sign = (if m < 0 then ''-'' else []);
               e = int (length (showNat a)) - int k - 1
           in if a \<noteq> 0 \<and> (21 \<le> e \<or> e < -6)
              then sign @ [hd (significand a)]
                     @ (if tl (significand a) = [] then [] else ''.'' @ tl (significand a))
                     @ ''e'' @ (if e < 0 then ''-'' else ''+'') @ showNat (nat \<bar>e\<bar>)
              else if k = 0 then sign @ showNat a
              else sign @ showNat (a div 10 ^ k) @ ''.'' @ padZeros k (showNat (a mod 10 ^ k))))"

definition looksNumber :: "string \<Rightarrow> bool" where
  \<comment> \<open>\<open>/^-?\\d+(\\.\\d+)?$/\<close>\<close>
  "looksNumber s =
     (let u = (if startsWith s ''-'' then tl s else s);
          ip = takeWhile isDigit u; r = dropWhile isDigit u
      in ip \<noteq> [] \<and> (r = [] \<or> (hd r = CHR ''.'' \<and> allDigits (tl r))))"

definition parseFloat :: "string \<Rightarrow> jsnum" where
  \<comment> \<open>\<open>parseFloat\<close> on a string that \<open>looksNumber\<close> accepts (its only use); a numeral of
      magnitude \<open>2 ^ 1024 - 2 ^ 970\<close> or more is rounded to an infinity\<close>
  "parseFloat s =
     (let neg = startsWith s ''-'';
          u = (if neg then tl s else s);
          ip = takeWhile isDigit u; fp = tl (dropWhile isDigit u);
          a = int (parseInt (ip @ fp))
      in if (2 ^ 1024 - 2 ^ 970) * 10 ^ length fp \<le> a
         then (if neg then NegInfinity else PosInfinity)
         else normDec (if neg then - a else a) (length fp))"

text \<open>
  An object is an association list in the order in which its keys are enumerated: the
  keys that are array indices in ascending order, then the other keys in insertion order.
  The source's objects have unique keys. The tag records how the object was made: \<open>{}\<close> and object literals inherit
  from \<open>Object.prototype\<close>, \<open>Object.create(null)\<close> inherits nothing.
\<close>

datatype prototype = ObjectPrototype | NullPrototype

datatype GoonValue =
    VNull
  | VBool bool
  | VNum jsnum
  | VStr string
  | VArr "GoonValue list"
  | VObj prototype "(string \<times> GoonValue) list"

record Dictionary =
  entries :: "string list"
  lookup :: "(string \<times> string) list"

section \<open>Utilities\<close>

definition MAX_REPEAT_COUNT :: nat where
  "MAX_REPEAT_COUNT = 10000"

definition MAX_RECURSION_DEPTH :: nat where
  "MAX_RECURSION_DEPTH = 100"

definition MAX_INPUT_SIZE :: nat where
  "MAX_INPUT_SIZE = 10 * 1024 * 1024"

definition DANGEROUS_KEYS :: "string list" where
  "DANGEROUS_KEYS =
     [''__proto__'', ''constructor'', ''prototype'', ''__defineGetter__'',
      ''__defineSetter__'', ''__lookupGetter__'', ''__lookupSetter__'']"

definition isSafeKey :: "string \<Rightarrow> bool" where
  "isSafeKey key = (key \<notin> set DANGEROUS_KEYS)"

fun isPlainObject :: "GoonValue \<Rightarrow> bool" where
  "isPlainObject (VObj p kvs) = True"
| "isPlainObject _ = False"

fun isArray :: "GoonValue \<Rightarrow> bool" where
  "isArray (VArr xs) = True"
| "isArray _ = False"

fun isPrimitive :: "GoonValue \<Rightarrow> bool" where
  "isPrimitive (VArr xs) = False"
| "isPrimitive (VObj p kvs) = False"
| "isPrimitive _ = True"

fun objectEntries :: "GoonValue \<Rightarrow> (string \<times> GoonValue) list" where
  "objectEntries (VObj p kvs) = kvs"
| "objectEntries _ = []"

definition objectKeys :: "GoonValue \<Rightarrow> string list" where
  "objectKeys v = map fst (objectEntries v)"

definition endsWithStarDigits :: "string \<Rightarrow> bool" where
  \<comment> \<open>\<open>/\\*\\d+$/\<close>\<close>
  "endsWithStarDigits s =
     (let ds = takeWhile isDigit (rev s); r = dropWhile isDigit (rev s)
      in ds \<noteq> [] \<and> r \<noteq> [] \<and> hd r = CHR ''*'')"

definition needsQuoting :: "string \<Rightarrow> bool" where
  "needsQuoting str =
     (if str = [] then False
      else if str \<in> set [''T'', ''F'', ''_'', ''~'', ''^''] then True
      else if hd str = CHR ''$'' \<or> hd str = CHR ''^'' then True
      else if \<exists>c \<in> set str. c \<in> {CHR ''|'', CHR 0x0A, CHR 0x0D, CHR 0x09} then True
      else if looksNumber str then True
      else if hd str = CHR ''$'' \<and> allDigits (tl str) then True
      else if endsWithStarDigits str then True
      else False)"

definition quoteString :: "string \<Rightarrow> string" where
  "quoteString str =
     (if \<not> needsQuoting str then str
      else let escaped =
             replaceAll (CHR 0x09) [CHR 0x5C, CHR ''t'']
              (replaceAll (CHR 0x0D) [CHR 0x5C, CHR ''r'']
               (replaceAll (CHR 0x0A) [CHR 0x5C, CHR ''n'']
                (replaceAll (CHR 0x22) [CHR 0x5C, CHR 0x22]
                 (replaceAll (CHR 0x5C) [CHR 0x5C, CHR 0x5C] str))))
           in [CHR 0x22] @ escaped @ [CHR 0x22])"

fun unescape :: "string \<Rightarrow> string" where
  "unescape (c # n # rest) =
     (if c = CHR 0x5C then
        (if n = CHR 0x5C then CHR 0x5C # unescape rest
         else if n = CHR 0x22 then CHR 0x22 # unescape rest
         else if n = CHR ''n'' then CHR 0x0A # unescape rest
         else if n = CHR ''r'' then CHR 0x0D # unescape rest
         else if n = CHR ''t'' then CHR 0x09 # unescape rest
         else CHR 0x5C # n # unescape rest)
      else c # unescape (n # rest))"
| "unescape [c] = [c]"
| "unescape [] = []"

definition unquoteString :: "string \<Rightarrow> string" where
  "unquoteString str =
     (if \<not> startsWith str [CHR 0x22] \<or> \<not> endsWith str [CHR 0x22] then str
      else unescape (butlast (tl str)))"

fun encodePrimitive :: "GoonValue \<Rightarrow> Dictionary \<Rightarrow> bool \<Rightarrow> string" where
  "encodePrimitive VNull dictionary useDictionary = ''_''"
| "encodePrimitive (VBool b) dictionary useDictionary = (if b then ''T'' else ''F'')"
| "encodePrimitive (VNum n) dictionary useDictionary =
     (if \<not> isFinite n then ''_'' else numberToString n)"
| "encodePrimitive (VStr s) dictionary useDictionary =
     (if s = [] then ''~''
      else case (if useDictionary then map_of (lookup dictionary) s else None) of
             Some dictRef \<Rightarrow> dictRef
           | None \<Rightarrow> quoteString s)"
| "encodePrimitive _ dictionary useDictionary = []"

definition parsePrimitive :: "string \<Rightarrow> string list \<Rightarrow> GoonValue" where
  "parsePrimitive str dictionary =
     (if str = ''_'' then VNull
      else if str = ''T'' then VBool True
      else if str = ''F'' then VBool False
      else if str = ''~'' then VStr []
      else if startsWith str ''$'' \<and> length str > 1 \<and> allDigits (tl str) then
        (let index = parseInt (tl str)
         in if index < length dictionary then VStr (dictionary ! index) else VStr str)
      else if startsWith str [CHR 0x22] \<and> endsWith str [CHR 0x22] \<and> length str \<ge> 2 then
        VStr (unquoteString str)
      else if looksNumber str \<and> isFinite (parseFloat str) then VNum (parseFloat str)
      else VStr str)"

definition parseCell :: "string \<Rightarrow> string list \<Rightarrow> GoonValue \<times> nat" where
  "parseCell cell dictionary =
     (let plain = (parsePrimitive cell dictionary, 1)
      in if startsWith cell [CHR 0x22] then plain
         else case lastIndexOf (CHR ''*'') cell of
                None \<Rightarrow> plain
              | Some lastStarIndex \<Rightarrow>
                  if lastStarIndex > 0 \<and> allDigits (drop (lastStarIndex + 1) cell) then
                    (let repeat = min (parseInt (drop (lastStarIndex + 1) cell)) MAX_REPEAT_COUNT
                     in (parsePrimitive (take lastStarIndex cell) dictionary,
                         if repeat < 1 then 1 else repeat))
                  else plain)"

definition getField :: "GoonValue \<Rightarrow> string \<Rightarrow> GoonValue option" where
  \<comment> \<open>\<open>obj[key]\<close>; \<open>None\<close> is \<open>undefined\<close>\<close>
  "getField obj key = map_of (objectEntries obj) key"

definition keysMatch :: "GoonValue \<Rightarrow> string list \<Rightarrow> bool" where
  \<comment> \<open>the callback of the second \<open>arr.every\<close> in \<open>isTabularArray\<close>\<close>
  "keysMatch item firstKeys =
     (if \<not> isPlainObject item then False
      else let keys = sort (objectKeys item)
           in if length keys \<noteq> length firstKeys then False
              else list_all
                     (\<lambda>(key, firstKey).
                         key = firstKey \<and>
                         (case getField item key of Some v \<Rightarrow> isPrimitive v | None \<Rightarrow> False))
                     (zip keys firstKeys))"

definition isTabularArray :: "GoonValue list \<Rightarrow> bool" where
  "isTabularArray arr =
     (if arr = [] then False
      else if \<not> list_all isPlainObject arr then False
      else let firstKeys = sort (objectKeys (hd arr))
           in if firstKeys = [] then False
              else list_all (\<lambda>item. keysMatch item firstKeys) arr)"

subsection \<open>Dictionary builder\<close>

fun countSet :: "string \<Rightarrow> (string \<times> nat) list \<Rightarrow> (string \<times> nat) list" where
  \<comment> \<open>\<open>counts.set(v, (counts.get(v) || 0) + 1)\<close> on an insertion-ordered \<open>Map\<close>\<close>
  "countSet v [] = [(v, 1)]"
| "countSet v ((k, c) # rest) =
     (if k = v then (k, c + 1) # rest else (k, c) # countSet v rest)"

fun scan :: "int \<Rightarrow> nat \<Rightarrow> GoonValue \<Rightarrow> (string \<times> nat) list \<Rightarrow> (string \<times> nat) list"
  and scanArray :: "int \<Rightarrow> nat \<Rightarrow> GoonValue list \<Rightarrow> (string \<times> nat) list \<Rightarrow> (string \<times> nat) list"
  and scanValues :: "int \<Rightarrow> nat \<Rightarrow> (string \<times> GoonValue) list \<Rightarrow> (string \<times> nat) list \<Rightarrow> (string \<times> nat) list"
where
  "scan minLength depth (VStr s) counts =
     (if depth > MAX_RECURSION_DEPTH then counts
      else if int (length s) \<ge> minLength then countSet s counts else counts)"
| "scan minLength depth (VArr xs) counts =
     (if depth > MAX_RECURSION_DEPTH then counts else scanArray minLength (depth + 1) xs counts)"
| "scan minLength depth (VObj p kvs) counts =
     (if depth > MAX_RECURSION_DEPTH then counts else scanValues minLength (depth + 1) kvs counts)"
| "scan minLength depth VNull counts = counts"
| "scan minLength depth (VBool b) counts = counts"
| "scan minLength depth (VNum n) counts = counts"
| "scanArray minLength depth [] counts = counts"
| "scanArray minLength depth (x # xs) counts =
     scanArray minLength depth xs (scan minLength depth x counts)"
| "scanValues minLength depth [] counts = counts"
| "scanValues minLength depth ((k, x) # kvs) counts =
     scanValues minLength depth kvs (scan minLength depth x counts)"

record Candidate =
  str :: string
  count :: nat
  savings :: int

definition DICT_LINE_OVERHEAD_CHARS :: int where
  "DICT_LINE_OVERHEAD_CHARS = 10"

definition mkCandidate :: "(string \<times> nat) \<times> nat \<Rightarrow> Candidate" where
  \<comment> \<open>the \<open>map\<close> callback: the pair is an entry of \<open>counts\<close> and its position\<close>
  "mkCandidate e =
     (case e of ((s, c), potentialIndex) \<Rightarrow>
        let refLength = (if potentialIndex < 10 then 2 else if potentialIndex < 100 then 3 else 4);
            dictCost = int (length s) + 1
        in \<lparr>str = s, count = c,
            savings = (int (length s) - refLength) * int c - dictCost\<rparr>)"

definition qualifying :: "(string \<times> nat) list \<Rightarrow> int \<Rightarrow> Candidate list" where
  \<comment> \<open>the chain up to the sort: filter by count, map with the position, filter by savings\<close>
  "qualifying counts minOccurrences =
     (let kept = filter (\<lambda>(s, c). int c \<ge> minOccurrences) counts;
          mapped = map mkCandidate (zip kept [0 ..< length kept])
      in filter (\<lambda>c. savings c > DICT_LINE_OVERHEAD_CHARS) mapped)"

definition candidates :: "(string \<times> nat) list \<Rightarrow> int \<Rightarrow> Candidate list" where
  \<comment> \<open>\<open>.sort((a, b) => b.savings - a.savings)\<close>; the sort is stable\<close>
  "candidates counts minOccurrences =
     sort_key (\<lambda>c. - savings c) (qualifying counts minOccurrences)"

fun selectEntries :: "(string \<times> nat) list \<Rightarrow> int \<Rightarrow> Candidate list \<Rightarrow> Dictionary \<Rightarrow> Dictionary" where
  \<comment> \<open>the \<open>for\<close> loop over the candidates, with its \<open>break\<close>\<close>
  "selectEntries counts maxEntries [] d = d"
| "selectEntries counts maxEntries (c # cs) d =
     (if maxEntries > 0 \<and> int (length (entries d)) \<ge> maxEntries then d
      else let index = length (entries d);
               cnt = (case map_of counts (str c) of Some n \<Rightarrow> n | None \<Rightarrow> 0);
               dictCost = int (length (str c)) + 1;
               refLength = 2;
               actualSavings = (int (length (str c)) - refLength) * int cnt - dictCost
           in selectEntries counts maxEntries cs
                (if actualSavings > 0
                 then \<lparr>entries = entries d @ [str c],
                       lookup = lookup d @ [(str c, ''$'' @ showNat index)]\<rparr>
                 else d))"

definition emptyDictionary :: Dictionary where
  "emptyDictionary = \<lparr>entries = [], lookup = []\<rparr>"

definition buildDictionary :: "GoonValue \<Rightarrow> int \<Rightarrow> int \<Rightarrow> int \<Rightarrow> Dictionary" where
  "buildDictionary v minLength minOccurrences maxEntries =
     (let counts = scan minLength 0 v []
      in selectEntries counts maxEntries (candidates counts minOccurrences) emptyDictionary)"

section \<open>Encoder\<close>

text \<open>
  The encoder is modelled for calls without a \<open>replacer\<close> callback. The option
  \<open>indent\<close> is a string by its type, so the check that raises on a non-string indent
  has no branch here.
\<close>

datatype EncodeMode = llm | compact | balanced

record InternalOptions =
  dictionary :: bool
  columnRefs :: bool
  runLength :: bool
  minDictLength :: int
  minDictOccurrences :: int
  maxDictEntries :: int
  indent :: string
  autoSort :: bool
  delimiter :: string
  maxColumnRefDepth :: int
  maxDictDepth :: int
  arrayLengths :: bool
  tabularArrays :: bool
  minimalIndent :: bool
  schemaDefaults :: bool
  footerSummaries :: bool
  rowNumbers :: bool

text \<open>The caller's options: every field may be absent.\<close>

record EncodeOptions =
  o_mode :: "EncodeMode option"
  o_dictionary :: "bool option"
  o_columnRefs :: "bool option"
  o_runLength :: "bool option"
  o_minDictLength :: "int option"
  o_minDictOccurrences :: "int option"
  o_maxDictEntries :: "int option"
  o_indent :: "string option"
  o_autoSort :: "bool option"
  o_delimiter :: "string option"
  o_maxColumnRefDepth :: "int option"
  o_maxDictDepth :: "int option"
  o_arrayLengths :: "bool option"
  o_tabularArrays :: "bool option"
  o_minimalIndent :: "bool option"
  o_schemaDefaults :: "bool option"
  o_footerSummaries :: "bool option"
  o_rowNumbers :: "bool option"

definition noOptions :: EncodeOptions where
  "noOptions =
     \<lparr>o_mode = None, o_dictionary = None, o_columnRefs = None, o_runLength = None,
      o_minDictLength = None, o_minDictOccurrences = None, o_maxDictEntries = None,
      o_indent = None, o_autoSort = None, o_delimiter = None, o_maxColumnRefDepth = None,
      o_maxDictDepth = None, o_arrayLengths = None, o_tabularArrays = None,
      o_minimalIndent = None, o_schemaDefaults = None, o_footerSummaries = None,
      o_rowNumbers = None\<rparr>"

definition BASE_DEFAULTS :: InternalOptions where
  "BASE_DEFAULTS =
     \<lparr>dictionary = True, columnRefs = True, runLength = True, minDictLength = 3,
      minDictOccurrences = 2, maxDictEntries = 5, indent = ''  '', autoSort = False,
      delimiter = '','', maxColumnRefDepth = 1, maxDictDepth = 2, arrayLengths = True,
      tabularArrays = True, minimalIndent = False, schemaDefaults = False,
      footerSummaries = False, rowNumbers = False\<rparr>"

fun MODE_PRESETS :: "EncodeMode \<Rightarrow> EncodeOptions" where
  "MODE_PRESETS llm =
     noOptions\<lparr>o_dictionary := Some False, o_columnRefs := Some False,
       o_minimalIndent := Some True, o_schemaDefaults := Some False,
       o_footerSummaries := Some False, o_rowNumbers := Some False\<rparr>"
| "MODE_PRESETS compact =
     noOptions\<lparr>o_dictionary := Some True, o_columnRefs := Some True, o_autoSort := Some True,
       o_minimalIndent := Some True, o_maxDictEntries := Some 0,
       o_maxColumnRefDepth := Some (- 1), o_maxDictDepth := Some (- 1)\<rparr>"
| "MODE_PRESETS balanced = noOptions"

definition spread :: "'a \<Rightarrow> 'a option \<Rightarrow> 'a option \<Rightarrow> 'a" where
  \<comment> \<open>one field of \<open>{...BASE_DEFAULTS, ...modeDefaults, ...options}\<close>\<close>
  "spread base preset user =
     (case user of Some u \<Rightarrow> u | None \<Rightarrow> (case preset of Some p \<Rightarrow> p | None \<Rightarrow> base))"

definition resolveOptions :: "EncodeOptions \<Rightarrow> InternalOptions" where
  "resolveOptions options =
     (let m = MODE_PRESETS (case o_mode options of Some md \<Rightarrow> md | None \<Rightarrow> llm);
          b = BASE_DEFAULTS
      in \<lparr>dictionary = spread (dictionary b) (o_dictionary m) (o_dictionary options),
          columnRefs = spread (columnRefs b) (o_columnRefs m) (o_columnRefs options),
          runLength = spread (runLength b) (o_runLength m) (o_runLength options),
          minDictLength = spread (minDictLength b) (o_minDictLength m) (o_minDictLength options),
          minDictOccurrences =
            spread (minDictOccurrences b) (o_minDictOccurrences m) (o_minDictOccurrences options),
          maxDictEntries = spread (maxDictEntries b) (o_maxDictEntries m) (o_maxDictEntries options),
          indent = spread (indent b) (o_indent m) (o_indent options),
          autoSort = spread (autoSort b) (o_autoSort m) (o_autoSort options),
          delimiter = spread (delimiter b) (o_delimiter m) (o_delimiter options),
          maxColumnRefDepth =
            spread (maxColumnRefDepth b) (o_maxColumnRefDepth m) (o_maxColumnRefDepth options),
          maxDictDepth = spread (maxDictDepth b) (o_maxDictDepth m) (o_maxDictDepth options),
          arrayLengths = spread (arrayLengths b) (o_arrayLengths m) (o_arrayLengths options),
          tabularArrays = spread (tabularArrays b) (o_tabularArrays m) (o_tabularArrays options),
          minimalIndent = spread (minimalIndent b) (o_minimalIndent m) (o_minimalIndent options),
          schemaDefaults = spread (schemaDefaults b) (o_schemaDefaults m) (o_schemaDefaults options),
          footerSummaries =
            spread (footerSummaries b) (o_footerSummaries m) (o_footerSummaries options),
          rowNumbers = spread (rowNumbers b) (o_rowNumbers m) (o_rowNumbers options)\<rparr>)"

datatype GoonEncodeError = GoonEncodeError string

definition recursionMessage :: string where
  \<comment> \<open>the message of both recursion-limit errors\<close>
  "recursionMessage = ''Maximum recursion depth ('' @ showNat MAX_RECURSION_DEPTH @ '') exceeded''"

definition repeatStr :: "string \<Rightarrow> nat \<Rightarrow> string" where
  \<comment> \<open>\<open>s.repeat(n)\<close>\<close>
  "repeatStr s n = concat (replicate n s)"

definition keyed :: "string option \<Rightarrow> string" where
  \<comment> \<open>the text a parent key contributes to a line: nothing when the key is \<open>null\<close>\<close>
  "keyed parentKey = (case parentKey of Some k \<Rightarrow> k | None \<Rightarrow> [])"

definition useDictionaryAt :: "InternalOptions \<Rightarrow> nat \<Rightarrow> bool" where
  "useDictionaryAt opts depth = (maxDictDepth opts = - 1 \<or> int depth \<le> maxDictDepth opts)"

subsection \<open>Tables\<close>

definition strictEq :: "GoonValue \<Rightarrow> GoonValue \<Rightarrow> bool" where
  \<comment> \<open>\<open>===\<close> on primitives: \<open>NaN\<close> is not equal to itself\<close>
  "strictEq a b = (a = b \<and> a \<noteq> VNum NaN)"

definition cellOf :: "GoonValue \<Rightarrow> string \<Rightarrow> GoonValue" where
  \<comment> \<open>\<open>obj[f]\<close> for a field of a tabular array, where every row has every field;
      \<open>undefined\<close> cannot arise there and is not distinguished from \<open>null\<close>\<close>
  "cellOf obj f = (case getField obj f of Some v \<Rightarrow> v | None \<Rightarrow> VNull)"

definition stringOf :: "GoonValue \<Rightarrow> string" where
  \<comment> \<open>\<open>String(v ?? '')\<close> on a primitive\<close>
  "stringOf v =
     (case v of
        VNull \<Rightarrow> []
      | VBool b \<Rightarrow> (if b then ''true'' else ''false'')
      | VNum n \<Rightarrow> numberToString n
      | VStr s \<Rightarrow> s
      | _ \<Rightarrow> [])"

fun bumpValue :: "GoonValue \<Rightarrow> (GoonValue \<times> nat) list \<Rightarrow> (GoonValue \<times> nat) list" where
  \<comment> \<open>\<open>m.set(val, (m.get(val) || 0) + 1)\<close> on a \<open>Map\<close> keyed by value\<close>
  "bumpValue v [] = [(v, 1)]"
| "bumpValue v ((k, c) # rest) =
     (if k = v then (k, c + 1) # rest else (k, c) # bumpValue v rest)"

definition maxRun :: "GoonValue list \<Rightarrow> string \<Rightarrow> nat" where
  "maxRun arr field =
     (let valueCounts = foldl (\<lambda>m obj. bumpValue (cellOf obj field) m) [] arr
      in foldl max 0 (map snd valueCounts))"

definition autoSortForColumnRefs :: "GoonValue list \<Rightarrow> string list \<Rightarrow> GoonValue list" where
  \<comment> \<open>both sorts are stable, as \<open>Array.prototype.sort\<close> is\<close>
  "autoSortForColumnRefs arr flds =
     (let columnRepetitions = sort_key (\<lambda>f. - int (maxRun arr f)) flds;
          sortFields = take 3 columnRepetitions
      in sort_key (\<lambda>row. map (\<lambda>f. stringOf (cellOf row f)) sortFields) arr)"

definition jsonKey :: "GoonValue \<Rightarrow> GoonValue" where
  \<comment> \<open>stands for \<open>JSON.stringify(val)\<close> as a \<open>Map\<close> key: on primitives it is injective
      except that it sends every non-finite number, like \<open>null\<close>, to the text null\<close>
  "jsonKey v = (case v of VNum n \<Rightarrow> if isFinite n then v else VNull | _ \<Rightarrow> v)"

fun bumpDefault ::
  "GoonValue \<Rightarrow> (GoonValue \<times> GoonValue \<times> nat) list \<Rightarrow> (GoonValue \<times> GoonValue \<times> nat) list" where
  \<comment> \<open>the body of the counting loop: key, first value seen with that key, count\<close>
  "bumpDefault v [] = [(jsonKey v, v, 1)]"
| "bumpDefault v ((k, v0, c) # rest) =
     (if k = jsonKey v then (k, v0, c + 1) # rest else (k, v0, c) # bumpDefault v rest)"

definition mostCommonOf :: "(GoonValue \<times> GoonValue \<times> nat) list \<Rightarrow> (GoonValue \<times> nat) option" where
  "mostCommonOf valueCounts =
     foldl (\<lambda>mostCommon (k, v, c).
              case mostCommon of
                None \<Rightarrow> Some (v, c)
              | Some (v0, c0) \<Rightarrow> if c > c0 then Some (v, c) else Some (v0, c0))
           None valueCounts"

definition fieldDefaultsOf :: "InternalOptions \<Rightarrow> GoonValue list \<Rightarrow> string list \<Rightarrow> (string \<times> GoonValue) list" where
  \<comment> \<open>the \<open>fieldDefaults\<close> map, as the list of its entries\<close>
  "fieldDefaultsOf opts arr flds =
     (if \<not> schemaDefaults opts then []
      else concat (map (\<lambda>f.
             case mostCommonOf (foldl (\<lambda>m obj. bumpDefault (cellOf obj f) m) [] arr) of
               Some (v, c) \<Rightarrow> if 2 * c > length arr \<and> c > 1 then [(f, v)] else []
             | None \<Rightarrow> []) flds))"

definition encodeCell ::
  "InternalOptions \<Rightarrow> Dictionary \<Rightarrow> bool \<Rightarrow> bool \<Rightarrow> (string \<times> GoonValue) list \<Rightarrow>
   GoonValue list option \<Rightarrow> string list \<Rightarrow> GoonValue list \<Rightarrow> nat \<Rightarrow> string" where
  "encodeCell opts dict useColumnRefs useDict fieldDefaults prevRow flds row i =
     (let v = row ! i; defaultVal = map_of fieldDefaults (flds ! i)
      in if useColumnRefs \<and> (case prevRow of None \<Rightarrow> False | Some prev \<Rightarrow> strictEq v (prev ! i))
            \<and> v \<noteq> VNull
         then ''^''
         else if schemaDefaults opts
                 \<and> (case defaultVal of None \<Rightarrow> False | Some d \<Rightarrow> strictEq v d)
         then []
         else encodePrimitive v dict useDict)"

fun encodeRows ::
  "InternalOptions \<Rightarrow> Dictionary \<Rightarrow> bool \<Rightarrow> bool \<Rightarrow> (string \<times> GoonValue) list \<Rightarrow> string list \<Rightarrow>
   nat \<Rightarrow> nat \<Rightarrow> GoonValue list option \<Rightarrow> GoonValue list \<Rightarrow> string list" where
  "encodeRows opts dict useColumnRefs useDict fieldDefaults flds depth rowIdx prevRow [] = []"
| "encodeRows opts dict useColumnRefs useDict fieldDefaults flds depth rowIdx prevRow (obj # rest) =
     (let row = map (cellOf obj) flds;
          cells = map (encodeCell opts dict useColumnRefs useDict fieldDefaults prevRow flds row)
                    [0 ..< length row];
          rowIndent = (if minimalIndent opts then [] else repeatStr (indent opts) (depth + 1));
          rowPrefix = (if rowNumbers opts then showNat (rowIdx + 1) @ ''. '' else [])
      in (rowIndent @ rowPrefix @ joinWith (delimiter opts) cells)
         # encodeRows opts dict useColumnRefs useDict fieldDefaults flds depth (rowIdx + 1)
             (Some row) rest)"

definition addDec :: "jsnum \<Rightarrow> jsnum \<Rightarrow> jsnum" where
  \<comment> \<open>\<open>+\<close> on finite numbers, exact on decimals\<close>
  "addDec a b =
     (case (a, b) of
        (Dec m1 k1, Dec m2 k2) \<Rightarrow>
          normDec (m1 * 10 ^ (max k1 k2 - k1) + m2 * 10 ^ (max k1 k2 - k2)) (max k1 k2)
      | _ \<Rightarrow> NaN)"

definition roundedAverage :: "jsnum \<Rightarrow> nat \<Rightarrow> jsnum" where
  \<comment> \<open>\<open>Math.round((sum / count) * 100) / 100\<close>, exact on decimals; \<open>Math.round\<close> rounds
      a half towards positive infinity\<close>
  "roundedAverage sm cnt =
     (case sm of
        Dec m k \<Rightarrow> normDec ((200 * m + 10 ^ k * int cnt) div (2 * 10 ^ k * int cnt)) 2
      | _ \<Rightarrow> NaN)"

fun sumSet :: "string \<Rightarrow> jsnum \<Rightarrow> (string \<times> jsnum \<times> nat) list \<Rightarrow> (string \<times> jsnum \<times> nat) list" where
  \<comment> \<open>adds one numeric cell to \<open>numericSums\<close>\<close>
  "sumSet f n [] = [(f, addDec (Dec 0 0) n, 1)]"
| "sumSet f n ((g, sm, c) # rest) =
     (if g = f then (g, addDec sm n, c + 1) # rest else (g, sm, c) # sumSet f n rest)"

definition numericSumsOf :: "InternalOptions \<Rightarrow> string list \<Rightarrow> GoonValue list \<Rightarrow> (string \<times> jsnum \<times> nat) list" where
  \<comment> \<open>\<open>numericSums\<close> after the row loop: rows in order, fields in order within a row\<close>
  "numericSumsOf opts flds rows =
     (if \<not> footerSummaries opts then []
      else foldl (\<lambda>sums obj.
                    foldl (\<lambda>sums' f.
                             case cellOf obj f of
                               VNum n \<Rightarrow> if isFinite n then sumSet f n sums' else sums'
                             | _ \<Rightarrow> sums')
                          sums flds)
                 [] rows)"

definition footerLines :: "InternalOptions \<Rightarrow> nat \<Rightarrow> nat \<Rightarrow> (string \<times> jsnum \<times> nat) list \<Rightarrow> string list" where
  "footerLines opts depth n numericSums =
     (if footerSummaries opts \<and> numericSums \<noteq> [] then
        (let summaryParts =
               (''n='' @ showNat n) #
               concat (map (\<lambda>(f, sm, c).
                              if c = n
                              then [f @ '':sum='' @ numberToString sm,
                                    f @ '':avg='' @ numberToString (roundedAverage sm c)]
                              else [])
                           numericSums);
             rowIndent = (if minimalIndent opts then [] else repeatStr (indent opts) depth)
         in [rowIndent @ ''---['' @ joinWith '','' summaryParts @ '']''])
      else [])"

definition encodeTabularArray ::
  "GoonValue list \<Rightarrow> nat \<Rightarrow> InternalOptions \<Rightarrow> Dictionary \<Rightarrow> string option \<Rightarrow> string list" where
  "encodeTabularArray arr depth opts dict parentKey =
     (let ind = repeatStr (indent opts) depth;
          flds = filter isSafeKey (objectKeys (hd arr))
      in if flds = [] then [ind @ keyed parentKey @ ''[]'']
         else
           let useColumnRefs = (columnRefs opts \<and>
                 (maxColumnRefDepth opts = - 1 \<or> int depth < maxColumnRefDepth opts));
               rowDepth = depth + 1;
               useDict = useDictionaryAt opts rowDepth;
               sortedArr = (if autoSort opts \<and> useColumnRefs \<and> length arr > 1
                            then autoSortForColumnRefs arr flds else arr);
               fieldDefaults = fieldDefaultsOf opts arr flds;
               lengthPrefix = (if arrayLengths opts then ''['' @ showNat (length arr) @ '']'' else []);
               fieldParts = map (\<lambda>f. case map_of fieldDefaults f of
                                        Some d \<Rightarrow> f @ ''='' @ encodePrimitive d dict False
                                      | None \<Rightarrow> f) flds;
               header = lengthPrefix @ ''{'' @ joinWith (delimiter opts) fieldParts @ ''}:''
           in (ind @ keyed parentKey @ header)
              # encodeRows opts dict useColumnRefs useDict fieldDefaults flds depth 0 None sortedArr
              @ footerLines opts depth (length arr) (numericSumsOf opts flds sortedArr))"

subsection \<open>Values, arrays and objects\<close>

text \<open>
  Each function returns the lines it pushes, in order, or the error it throws; a throw
  discards the lines pushed so far, as the exception leaves \<open>encode\<close> without a result.
\<close>

definition safeEntries :: "(string \<times> GoonValue) list \<Rightarrow> (string \<times> GoonValue) list" where
  \<comment> \<open>\<open>Object.entries(obj).filter(([key]) => isSafeKey(key))\<close>\<close>
  "safeEntries kvs = filter (\<lambda>(k, v). isSafeKey k) kvs"

lemma size_safeEntries [termination_simp]:
  "size_list f (safeEntries kvs) \<le> size_list f kvs"
  unfolding safeEntries_def by (induction kvs) auto

function (sequential)
  encodeValue ::
    "GoonValue \<Rightarrow> nat \<Rightarrow> InternalOptions \<Rightarrow> Dictionary \<Rightarrow> string option \<Rightarrow> nat \<Rightarrow>
     GoonEncodeError + string list"
  and encodeArray ::
    "GoonValue list \<Rightarrow> nat \<Rightarrow> InternalOptions \<Rightarrow> Dictionary \<Rightarrow> string option \<Rightarrow> nat \<Rightarrow>
     GoonEncodeError + string list"
  and encodeItems ::
    "GoonValue list \<Rightarrow> nat \<Rightarrow> InternalOptions \<Rightarrow> Dictionary \<Rightarrow> bool \<Rightarrow> nat \<Rightarrow>
     GoonEncodeError + string list"
  and encodeObject ::
    "(string \<times> GoonValue) list \<Rightarrow> nat \<Rightarrow> InternalOptions \<Rightarrow> Dictionary \<Rightarrow> string option \<Rightarrow> nat \<Rightarrow>
     GoonEncodeError + string list"
  and encodeEntries ::
    "(string \<times> GoonValue) list \<Rightarrow> nat \<Rightarrow> InternalOptions \<Rightarrow> Dictionary \<Rightarrow> bool \<Rightarrow> nat \<Rightarrow>
     GoonEncodeError + string list"
where
  "encodeValue (VArr arr) depth opts dict parentKey recursionDepth =
     (if recursionDepth \<ge> MAX_RECURSION_DEPTH
      then Inl (GoonEncodeError recursionMessage)
      else encodeArray arr depth opts dict parentKey (recursionDepth + 1))"
| "encodeValue (VObj p kvs) depth opts dict parentKey recursionDepth =
     (if recursionDepth \<ge> MAX_RECURSION_DEPTH
      then Inl (GoonEncodeError recursionMessage)
      else encodeObject kvs depth opts dict parentKey (recursionDepth + 1))"
| "encodeValue v depth opts dict parentKey recursionDepth =
     (if recursionDepth \<ge> MAX_RECURSION_DEPTH
      then Inl (GoonEncodeError recursionMessage)
      else let encoded = encodePrimitive v dict (useDictionaryAt opts depth)
           in Inr [repeatStr (indent opts) depth
                   @ (case parentKey of Some k \<Rightarrow> k @ '': '' | None \<Rightarrow> []) @ encoded])"
| "encodeArray arr depth opts dict parentKey recursionDepth =
     (let ind = repeatStr (indent opts) depth;
          useDict = useDictionaryAt opts depth;
          lengthSuffix = (if arrayLengths opts then ''['' @ showNat (length arr) @ '']'' else ''[]'')
      in if arr = [] then Inr [ind @ keyed parentKey @ ''[]'']
         else if tabularArrays opts \<and> isTabularArray arr
         then Inr (encodeTabularArray arr depth opts dict parentKey)
         else if list_all isPrimitive arr \<and> length arr \<le> 10
         then Inr [ind @ keyed parentKey @ ''[]:''
                   @ joinWith (delimiter opts) (map (\<lambda>v. encodePrimitive v dict useDict) arr)]
         else case encodeItems arr depth opts dict useDict recursionDepth of
                Inl e \<Rightarrow> Inl e
              | Inr ls \<Rightarrow> Inr ((ind @ keyed parentKey @ lengthSuffix @ '':'') # ls))"
| "encodeItems [] depth opts dict useDict recursionDepth = Inr []"
| "encodeItems (item # rest) depth opts dict useDict recursionDepth =
     (case (case item of
              VArr xs \<Rightarrow>
                (case encodeValue (VArr xs) (depth + 2) opts dict None (recursionDepth + 1) of
                   Inl e \<Rightarrow> Inl e
                 | Inr ls \<Rightarrow> Inr ((repeatStr (indent opts) (depth + 1) @ ''-'') # ls))
            | VObj p kvs \<Rightarrow>
                (case encodeObject kvs (depth + 2) opts dict None (recursionDepth + 1) of
                   Inl e \<Rightarrow> Inl e
                 | Inr ls \<Rightarrow> Inr ((repeatStr (indent opts) (depth + 1) @ ''-'') # ls))
            | _ \<Rightarrow>
                Inr [repeatStr (indent opts) (depth + 1) @ ''- ''
                     @ encodePrimitive item dict useDict]) of
        Inl e \<Rightarrow> Inl e
      | Inr ls \<Rightarrow>
          (case encodeItems rest depth opts dict useDict recursionDepth of
             Inl e \<Rightarrow> Inl e
           | Inr ls' \<Rightarrow> Inr (ls @ ls')))"
| "encodeObject kvs depth opts dict parentKey recursionDepth =
     (if recursionDepth \<ge> MAX_RECURSION_DEPTH
      then Inl (GoonEncodeError recursionMessage)
      else if safeEntries kvs = [] then Inr [repeatStr (indent opts) depth @ keyed parentKey @ ''{}'']
      else let childIndent = (if parentKey \<noteq> None then depth + 1 else depth);
               useDict = useDictionaryAt opts childIndent
           in case encodeEntries (safeEntries kvs) childIndent opts dict useDict recursionDepth of
                Inl e \<Rightarrow> Inl e
              | Inr ls \<Rightarrow>
                  Inr ((case parentKey of
                          Some k \<Rightarrow> [repeatStr (indent opts) depth @ k @ '':'']
                        | None \<Rightarrow> []) @ ls))"
| "encodeEntries [] childIndent opts dict useDict recursionDepth = Inr []"
| "encodeEntries ((key, v) # rest) childIndent opts dict useDict recursionDepth =
     (case (case v of
              VArr arr \<Rightarrow> encodeArray arr childIndent opts dict (Some key) (recursionDepth + 1)
            | VObj p kvs \<Rightarrow> encodeObject kvs childIndent opts dict (Some key) (recursionDepth + 1)
            | _ \<Rightarrow>
                Inr [repeatStr (indent opts) childIndent @ key @ '': ''
                     @ encodePrimitive v dict useDict]) of
        Inl e \<Rightarrow> Inl e
      | Inr ls \<Rightarrow>
          (case encodeEntries rest childIndent opts dict useDict recursionDepth of
             Inl e \<Rightarrow> Inl e
           | Inr ls' \<Rightarrow> Inr (ls @ ls')))"
  by pat_completeness auto

termination encodeValue
  apply (relation "measure (\<lambda>x. case x of
       Inl (Inl (v, _)) \<Rightarrow> 2 * size v
     | Inl (Inr (arr, _)) \<Rightarrow> 2 * size_list size arr + 1
     | Inr (Inl (items, _)) \<Rightarrow> 2 * size_list size items
     | Inr (Inr (Inl (kvs, _))) \<Rightarrow> 2 * size_list (size_prod (\<lambda>_. 0) size) kvs + 1
     | Inr (Inr (Inr (es, _))) \<Rightarrow> 2 * size_list (size_prod (\<lambda>_. 0) size) es)")
  apply (simp_all add: less_Suc_eq_le size_safeEntries)
  done

definition encode :: "GoonValue \<Rightarrow> EncodeOptions \<Rightarrow> GoonEncodeError + string" where
  "encode v options =
     (let opts = resolveOptions options;
          dict = (if dictionary opts
                  then buildDictionary v (minDictLength opts) (minDictOccurrences opts)
                         (maxDictEntries opts)
                  else emptyDictionary);
          dictLines =
            (if entries dict \<noteq> []
             then [''$:'' @ joinWith '',''
                     (map (\<lambda>(i, val). ''$'' @ showNat i @ ''='' @ quoteString val)
                        (zip [0 ..< length (entries dict)] (entries dict)))]
             else [])
      in case encodeValue v 0 opts dict None 0 of
           Inl e \<Rightarrow> Inl e
         | Inr ls \<Rightarrow> Inr (joinWith [CHR 0x0A] (dictLines @ ls)))"

section \<open>Decoder\<close>

text \<open>
  The decoder is modelled for calls without a \<open>reviver\<close> callback. What it throws is a
  value: the plain \<open>Error\<close> of the size check, or a \<open>GoonDecodeError\<close> with its
  message and line number.
\<close>

datatype thrown = Error string | GoonDecodeError string nat

record ParseContext =
  lines :: "string list"
  index :: nat
  dictionary :: "string list"
  indent :: string
  depth :: nat

definition createSafeObject :: GoonValue where
  \<comment> \<open>\<open>Object.create(null)\<close>\<close>
  "createSafeObject = VObj NullPrototype []"

definition isArrayIndex :: "string \<Rightarrow> bool" where
  \<comment> \<open>a canonical numeral below \<open>2 ^ 32 - 1\<close>: the keys that are enumerated first\<close>
  "isArrayIndex key =
     (allDigits key \<and> (key = ''0'' \<or> hd key \<noteq> CHR ''0'') \<and> parseInt key < 2 ^ 32 - 1)"

fun objSet :: "(string \<times> GoonValue) list \<Rightarrow> string \<Rightarrow> GoonValue \<Rightarrow> (string \<times> GoonValue) list" where
  \<comment> \<open>\<open>obj[key] = v\<close>: an existing key keeps its place, a new array index goes before the
      first key that is a greater index or none, any other new key goes to the end\<close>
  "objSet [] key v = [(key, v)]"
| "objSet ((k, w) # rest) key v =
     (if k = key then (k, v) # rest
      else if isArrayIndex key \<and> (isArrayIndex k \<longrightarrow> parseInt key < parseInt k)
      then (key, v) # (k, w) # rest
      else (k, w) # objSet rest key v)"

definition utf8Length :: "string \<Rightarrow> nat" where
  \<comment> \<open>\<open>new TextEncoder().encode(input).length\<close>: a code point below U+0080 is one
      byte, the others of Latin-1 are two\<close>
  "utf8Length s = foldl (\<lambda>n c. n + (if of_char c < (128::nat) then 1 else 2)) 0 s"

definition validateInputSize :: "string \<Rightarrow> thrown option" where
  "validateInputSize input =
     (let bytes = utf8Length input
      in if bytes > MAX_INPUT_SIZE
         then Some (Error (''Input size '' @ showNat bytes
                @ '' bytes exceeds maximum allowed size of '' @ showNat MAX_INPUT_SIZE @ '' bytes''))
         else None)"

fun splitOn :: "char \<Rightarrow> string \<Rightarrow> string list" where
  \<comment> \<open>\<open>s.split(c)\<close> for a one-character separator\<close>
  "splitOn c [] = [[]]"
| "splitOn c (x # xs) =
     (case splitOn c xs of
        [] \<Rightarrow> [[]]
      | p # ps \<Rightarrow> if x = c then [] # p # ps else (x # p) # ps)"

fun detectIndent :: "string list \<Rightarrow> string" where
  "detectIndent [] = ''  ''"
| "detectIndent (line # rest) =
     (if line \<noteq> [] \<and> isSpaceChar (hd line) then
        (if hd line = CHR 0x09 then [CHR 0x09]
         else replicate (min (length (takeWhile (\<lambda>c. c = CHR '' '') line)) 8) (CHR '' ''))
      else detectIndent rest)"

fun dictionaryChars :: "string \<Rightarrow> string list \<Rightarrow> string \<Rightarrow> bool \<Rightarrow> bool \<Rightarrow> string list" where
  \<comment> \<open>the character loop of \<open>parseDictionary\<close> and the statements after it\<close>
  "dictionaryChars [] ents current inQuote escaped =
     (let trimmed = trim current
      in if trimmed \<noteq> [] then ents @ [unquoteString trimmed] else ents)"
| "dictionaryChars (c # cs) ents current inQuote escaped =
     (if escaped then dictionaryChars cs ents (current @ [c]) inQuote False
      else if c = CHR 0x5C \<and> inQuote then dictionaryChars cs ents (current @ [c]) inQuote True
      else if c = CHR 0x22 then dictionaryChars cs ents (current @ [c]) (\<not> inQuote) escaped
      else if c = CHR '','' \<and> \<not> inQuote then
        (let trimmed = trim current
         in dictionaryChars cs (if trimmed \<noteq> [] then ents @ [unquoteString trimmed] else ents)
              [] inQuote escaped)
      else dictionaryChars cs ents (current @ [c]) inQuote escaped)"

definition parseDictionary :: "string \<Rightarrow> string list" where
  "parseDictionary dictLine = dictionaryChars dictLine [] [] False False"

function getIndentLevel :: "string \<Rightarrow> string \<Rightarrow> nat" where
  "getIndentLevel line ind =
     (if ind = [] then 0
      else if startsWith line ind then 1 + getIndentLevel (drop (length ind) line) ind
      else 0)"
  by pat_completeness auto
termination
proof (relation "measure (\<lambda>(line, ind). length line)")
  show "wf (measure (\<lambda>(line, ind). length line))" by simp
next
  fix line ind :: string
  assume "ind \<noteq> []" and "startsWith line ind"
  then have "length (take (length ind) line) = length ind" and "0 < length ind"
    by (simp_all add: startsWith_def)
  then have "length ind \<le> length line" and "0 < length ind"
    by simp_all
  then show "((drop (length ind) line, ind), (line, ind)) \<in> measure (\<lambda>(line, ind). length line)"
    by (cases ind) auto
qed

declare getIndentLevel.simps [simp del]

fun delimiterCounts :: "string \<Rightarrow> bool \<Rightarrow> nat \<times> nat \<times> nat \<Rightarrow> nat \<times> nat \<times> nat" where
  \<comment> \<open>the counting loop of \<open>detectDelimiter\<close>: commas, pipes, tabs\<close>
  "delimiterCounts [] inQuote counts = counts"
| "delimiterCounts (c # cs) inQuote (commas, pipes, tabs) =
     (let q = (if c = CHR 0x22 then \<not> inQuote else inQuote)
      in delimiterCounts cs q
           (if \<not> q then
              (if c = CHR '','' then commas + 1 else commas,
               if c = CHR ''|'' then pipes + 1 else pipes,
               if c = CHR 0x09 then tabs + 1 else tabs)
            else (commas, pipes, tabs)))"

definition detectDelimiter :: "string \<Rightarrow> char" where
  "detectDelimiter fieldsStr =
     (case delimiterCounts fieldsStr False (0, 0, 0) of
        (commas, pipes, tabs) \<Rightarrow>
          if tabs > pipes \<and> tabs > commas then CHR 0x09
          else if pipes > commas then CHR ''|''
          else CHR '','')"

definition cellValues :: "string \<Rightarrow> string list \<Rightarrow> GoonValue list" where
  \<comment> \<open>\<open>parseCell\<close> and the loop that pushes the value \<open>repeat\<close> times\<close>
  "cellValues trimmed dict = (case parseCell trimmed dict of (v, n) \<Rightarrow> replicate n v)"

fun rowChars :: "string \<Rightarrow> string list \<Rightarrow> char \<Rightarrow> GoonValue list \<Rightarrow> string \<Rightarrow> bool \<Rightarrow> bool \<Rightarrow> GoonValue list" where
  \<comment> \<open>the character loop of \<open>parseRow\<close> and the statements after it\<close>
  "rowChars [] dict delim cells current inQuote escaped =
     (let trimmed = trim current
      in if trimmed \<noteq> [] then cells @ cellValues trimmed dict else cells)"
| "rowChars (c # cs) dict delim cells current inQuote escaped =
     (if escaped then rowChars cs dict delim cells (current @ [c]) inQuote False
      else if c = CHR 0x5C \<and> inQuote then rowChars cs dict delim cells (current @ [c]) inQuote True
      else if c = CHR 0x22 then rowChars cs dict delim cells (current @ [c]) (\<not> inQuote) escaped
      else if c = delim \<and> \<not> inQuote then
        rowChars cs dict delim (cells @ cellValues (trim current) dict) [] inQuote escaped
      else rowChars cs dict delim cells (current @ [c]) inQuote escaped)"

definition parseRow :: "string \<Rightarrow> string list \<Rightarrow> char \<Rightarrow> GoonValue list" where
  "parseRow rowStr dict delim = rowChars rowStr dict delim [] [] False False"

subsection \<open>Line shapes\<close>

text \<open>
  Each regular expression of the decoder is a function on the trimmed line. A key is a
  non-empty run of \<open>[\\w.]\<close>; the character after it is never of that class in any of
  the patterns, so the run is the longest one. The dot matches any character other than
  a line terminator, and \<open>$\<close> is the end of the string.
\<close>

definition keyOf :: "string \<Rightarrow> string" where
  "keyOf s = takeWhile isKeyChar s"

definition afterKey :: "string \<Rightarrow> string" where
  "afterKey s = dropWhile isKeyChar s"

definition dotPlus :: "string \<Rightarrow> bool" where
  \<comment> \<open>\<open>(.+)$\<close> matches the whole of the string\<close>
  "dotPlus s = (s \<noteq> [] \<and> \<not> list_ex isLineTerminator s)"

definition spacesThenValue :: "string \<Rightarrow> string option" where
  \<comment> \<open>\<open>\\s*(.+)$\<close>: the longest run of spaces that leaves a value to match\<close>
  "spacesThenValue s =
     (case filter (\<lambda>j. dotPlus (drop j s))
             (rev [0 ..< Suc (length (takeWhile isSpaceChar s))]) of
        [] \<Rightarrow> None
      | j # js \<Rightarrow> Some (drop j s))"

definition keyValueMatch :: "string \<Rightarrow> (string \<times> string) option" where
  \<comment> \<open>\<open>/^([\\w.]+):\\s*(.+)$/\<close>\<close>
  "keyValueMatch s =
     (if keyOf s \<noteq> [] \<and> startsWith (afterKey s) '':''
      then (case spacesThenValue (tl (afterKey s)) of
              Some v \<Rightarrow> Some (keyOf s, v)
            | None \<Rightarrow> None)
      else None)"

definition emptyObjMatch :: "string \<Rightarrow> string option" where
  \<comment> \<open>\<open>/^([\\w.]+)\\{\\}$/\<close>\<close>
  "emptyObjMatch s = (if keyOf s \<noteq> [] \<and> afterKey s = ''{}'' then Some (keyOf s) else None)"

definition emptyArrMatch :: "string \<Rightarrow> string option" where
  \<comment> \<open>\<open>/^([\\w.]+)\\[\\]$/\<close>\<close>
  "emptyArrMatch s = (if keyOf s \<noteq> [] \<and> afterKey s = ''[]'' then Some (keyOf s) else None)"

definition skipLength :: "string \<Rightarrow> string option" where
  \<comment> \<open>\<open>(?:\\[\\d*\\])?\<close> before an opening brace: the rest of the string after it\<close>
  "skipLength s =
     (if startsWith s ''['' then
        (let r = dropWhile isDigit (tl s)
         in if startsWith r '']'' then Some (tl r) else None)
      else Some s)"

definition fieldsMatch :: "string \<Rightarrow> string option" where
  \<comment> \<open>\<open>(?:\\[\\d*\\])?\\{([^}]+)\\}:?$\<close>: the field list\<close>
  "fieldsMatch s =
     (case skipLength s of
        None \<Rightarrow> None
      | Some r \<Rightarrow>
          if startsWith r ''{'' then
            (let body = takeWhile (\<lambda>c. c \<noteq> CHR ''}'') (tl r);
                 rest = dropWhile (\<lambda>c. c \<noteq> CHR ''}'') (tl r)
             in if body \<noteq> [] \<and> (rest = ''}'' \<or> rest = ''}:'') then Some body else None)
          else None)"

definition tabularMatch :: "string \<Rightarrow> (string \<times> string) option" where
  \<comment> \<open>\<open>/^([\\w.]+)(?:\\[\\d*\\])?\\{([^}]+)\\}:?$/\<close>\<close>
  "tabularMatch s =
     (if keyOf s \<noteq> [] then
        (case fieldsMatch (afterKey s) of Some f \<Rightarrow> Some (keyOf s, f) | None \<Rightarrow> None)
      else None)"

definition nestedTabularMatch :: "string \<Rightarrow> (string \<times> string) option" where
  \<comment> \<open>\<open>/^([\\w.]+)?(?:\\[\\d*\\])?\\{([^}]+)\\}:?$/\<close>: the key is empty when its group
      did not take part\<close>
  "nestedTabularMatch s =
     (case fieldsMatch (afterKey s) of Some f \<Rightarrow> Some (keyOf s, f) | None \<Rightarrow> None)"

definition standaloneTabularMatch :: "string \<Rightarrow> string option" where
  \<comment> \<open>\<open>/^(?:\\[\\d*\\])?\\{([^}]+)\\}:?$/\<close>\<close>
  "standaloneTabularMatch s = fieldsMatch s"

definition simpleArrMatch :: "string \<Rightarrow> (string \<times> string) option" where
  \<comment> \<open>\<open>/^([\\w.]+)\\[\\]:(.+)$/\<close>\<close>
  "simpleArrMatch s =
     (if keyOf s \<noteq> [] \<and> startsWith (afterKey s) ''[]:'' \<and> dotPlus (drop 3 (afterKey s))
      then Some (keyOf s, drop 3 (afterKey s)) else None)"

definition standaloneSimpleArrMatch :: "string \<Rightarrow> string option" where
  \<comment> \<open>\<open>/^\\[\\]:(.+)$/\<close>\<close>
  "standaloneSimpleArrMatch s =
     (if startsWith s ''[]:'' \<and> dotPlus (drop 3 s) then Some (drop 3 s) else None)"

definition nestedKeyMatch :: "string \<Rightarrow> string option" where
  \<comment> \<open>\<open>/^([\\w.]+):?$/\<close>\<close>
  "nestedKeyMatch s =
     (if keyOf s \<noteq> [] \<and> (afterKey s = [] \<or> afterKey s = '':'') then Some (keyOf s) else None)"

definition keyThen :: "string \<Rightarrow> string \<Rightarrow> bool" where
  \<comment> \<open>\<open>/^[\\w.]+[cs]/\<close> for the characters \<open>cs\<close>\<close>
  "keyThen cs s = (keyOf s \<noteq> [] \<and> afterKey s \<noteq> [] \<and> hd (afterKey s) \<in> set cs)"

definition bareKey :: "string \<Rightarrow> bool" where
  \<comment> \<open>\<open>/^[\\w.]+$/\<close>\<close>
  "bareKey s = (keyOf s \<noteq> [] \<and> afterKey s = [])"

subsection \<open>Tables\<close>

definition rowValuesOf :: "nat \<Rightarrow> GoonValue list \<Rightarrow> GoonValue list \<Rightarrow> GoonValue list" where
  \<comment> \<open>the column-reference loop over the field positions; reading a list beyond its end
      gives \<open>undefined\<close>\<close>
  "rowValuesOf n cells prevRowValues =
     map (\<lambda>i. if i < length cells \<and> cells ! i = VStr ''^'' \<and> i < length prevRowValues
               then prevRowValues ! i
               else if i < length cells then cells ! i else VNull)
         [0 ..< n]"

definition rowObject :: "string list \<Rightarrow> GoonValue list \<Rightarrow> GoonValue" where
  \<comment> \<open>the loop that fills a fresh safe object with one row\<close>
  "rowObject flds rowValues =
     VObj NullPrototype
       (foldl (\<lambda>obj i. objSet obj (flds ! i) (rowValues ! i)) [] [0 ..< length flds])"

function tabularRows ::
  "ParseContext \<Rightarrow> int \<Rightarrow> char \<Rightarrow> string list \<Rightarrow> GoonValue list \<Rightarrow> GoonValue list \<Rightarrow>
   GoonValue list \<times> ParseContext" where
  \<comment> \<open>the \<open>while\<close> loop of \<open>parseTabularArray\<close>\<close>
  "tabularRows ctx baseIndent delim flds rows prevRowValues =
     (if \<not> index ctx < length (lines ctx) then (rows, ctx)
      else
        let line = lines ctx ! index ctx;
            currentIndent = getIndentLevel line (indent ctx);
            trimmed = trim line
        in if int currentIndent < baseIndent then (rows, ctx)
           else if trimmed = [] then
             tabularRows (ctx\<lparr>index := index ctx + 1\<rparr>) baseIndent delim flds rows prevRowValues
           else if keyThen '':[{'' trimmed \<or> startsWith trimmed ''$:'' then (rows, ctx)
           else
             let cells = parseRow trimmed (dictionary ctx) delim;
                 rowValues = rowValuesOf (length flds) cells prevRowValues
             in tabularRows (ctx\<lparr>index := index ctx + 1\<rparr>) baseIndent delim flds
                  (rows @ [rowObject flds rowValues]) rowValues)"
  by pat_completeness auto
termination
  by (relation "measure (\<lambda>(ctx, _). length (lines ctx) - index ctx)") auto

declare tabularRows.simps [simp del]

definition parseTabularArray ::
  "ParseContext \<Rightarrow> int \<Rightarrow> string \<Rightarrow> thrown + (GoonValue list \<times> ParseContext)" where
  "parseTabularArray ctx baseIndent fieldsStr =
     (if depth ctx + 1 > MAX_RECURSION_DEPTH
      then Inl (GoonDecodeError recursionMessage (index ctx + 1))
      else let delim = detectDelimiter fieldsStr;
               flds = filter isSafeKey (splitOn delim fieldsStr)
           in case tabularRows (ctx\<lparr>depth := depth ctx + 1, index := index ctx + 1\<rparr>)
                     baseIndent delim flds [] [] of
                (rows, ctx') \<Rightarrow> Inr (rows, ctx'\<lparr>depth := depth ctx' - 1\<rparr>))"

subsection \<open>Objects and lists\<close>

text \<open>
  The parsers that call each other take a bound on the number of steps (loop iterations
  and calls) as their first argument; \<open>None\<close> says that the bound was too small.
  \<open>decode\<close> supplies a bound from the number of lines. A parser returns the value with
  the context as the call leaves it, or what it throws.
\<close>

type_synonym 'a parsed = "(thrown + ('a \<times> ParseContext)) option"

definition advance :: "ParseContext \<Rightarrow> ParseContext" where
  \<comment> \<open>\<open>ctx.index++\<close>\<close>
  "advance ctx = ctx\<lparr>index := index ctx + 1\<rparr>"

definition setSafe :: "(string \<times> GoonValue) list \<Rightarrow> string \<Rightarrow> GoonValue \<Rightarrow> (string \<times> GoonValue) list" where
  \<comment> \<open>\<open>if (isSafeKey(key)) obj[key] = v\<close>\<close>
  "setSafe obj key v = (if isSafeKey key then objSet obj key v else obj)"

function (sequential) parseObject :: "nat \<Rightarrow> ParseContext \<Rightarrow> nat \<Rightarrow> GoonValue parsed"
  and parseObjectLoop ::
    "nat \<Rightarrow> ParseContext \<Rightarrow> nat \<Rightarrow> (string \<times> GoonValue) list \<Rightarrow> ((string \<times> GoonValue) list) parsed"
  and parseListArray :: "nat \<Rightarrow> ParseContext \<Rightarrow> int \<Rightarrow> (GoonValue list) parsed"
  and parseListLoop :: "nat \<Rightarrow> ParseContext \<Rightarrow> int \<Rightarrow> GoonValue list \<Rightarrow> (GoonValue list) parsed"
  and parseNestedValue :: "nat \<Rightarrow> ParseContext \<Rightarrow> nat \<Rightarrow> GoonValue parsed"
where
  "parseObject 0 ctx baseIndent = None"
| "parseObject (Suc n) ctx baseIndent =
     (if depth ctx + 1 > MAX_RECURSION_DEPTH
      then Some (Inl (GoonDecodeError recursionMessage (index ctx + 1)))
      else case parseObjectLoop n (ctx\<lparr>depth := depth ctx + 1\<rparr>) baseIndent [] of
             None \<Rightarrow> None
           | Some (Inl e) \<Rightarrow> Some (Inl e)
           | Some (Inr (obj, ctx')) \<Rightarrow>
               Some (Inr (VObj NullPrototype obj, ctx'\<lparr>depth := depth ctx' - 1\<rparr>)))"
| "parseObjectLoop 0 ctx baseIndent obj = None"
| "parseObjectLoop (Suc n) ctx baseIndent obj =
     (if \<not> index ctx < length (lines ctx) then Some (Inr (obj, ctx))
      else
        let line = lines ctx ! index ctx;
            currentIndent = getIndentLevel line (indent ctx);
            trimmed = trim line
        in if currentIndent < baseIndent then Some (Inr (obj, ctx))
           else if currentIndent > baseIndent then parseObjectLoop n (advance ctx) baseIndent obj
           else case keyValueMatch trimmed of
             Some (key, valueStr) \<Rightarrow>
               parseObjectLoop n (advance ctx) baseIndent
                 (setSafe obj key (parsePrimitive (trim valueStr) (dictionary ctx)))
           | None \<Rightarrow>
           (case emptyObjMatch trimmed of
             Some key \<Rightarrow> parseObjectLoop n (advance ctx) baseIndent (setSafe obj key createSafeObject)
           | None \<Rightarrow>
           (case emptyArrMatch trimmed of
             Some key \<Rightarrow> parseObjectLoop n (advance ctx) baseIndent (setSafe obj key (VArr []))
           | None \<Rightarrow>
           (case tabularMatch trimmed of
             Some (key, fieldsStr) \<Rightarrow>
               if isSafeKey key then
                 (case parseTabularArray ctx (int currentIndent) fieldsStr of
                    Inl e \<Rightarrow> Some (Inl e)
                  | Inr (rows, ctx') \<Rightarrow>
                      parseObjectLoop n ctx' baseIndent (objSet obj key (VArr rows)))
               else parseObjectLoop n (advance ctx) baseIndent obj
           | None \<Rightarrow>
           (case simpleArrMatch trimmed of
             Some (key, valuesStr) \<Rightarrow>
               parseObjectLoop n (advance ctx) baseIndent
                 (setSafe obj key
                    (VArr (parseRow valuesStr (dictionary ctx) (detectDelimiter valuesStr))))
           | None \<Rightarrow>
           (case emptyArrMatch trimmed of
             Some key \<Rightarrow>
               if isSafeKey key then
                 (case parseListArray n ctx (int currentIndent) of
                    None \<Rightarrow> None
                  | Some (Inl e) \<Rightarrow> Some (Inl e)
                  | Some (Inr (items, ctx')) \<Rightarrow>
                      parseObjectLoop n ctx' baseIndent (objSet obj key (VArr items)))
               else parseObjectLoop n (advance ctx) baseIndent obj
           | None \<Rightarrow>
           (case nestedKeyMatch trimmed of
             Some key \<Rightarrow>
               (let ctx1 = advance ctx;
                    nextIndent = (if index ctx1 < length (lines ctx1)
                                  then getIndentLevel (lines ctx1 ! index ctx1) (indent ctx1)
                                  else 0)
                in if index ctx1 < length (lines ctx1) \<and> isSafeKey key \<and> nextIndent > currentIndent
                   then (case parseObject n ctx1 nextIndent of
                           None \<Rightarrow> None
                         | Some (Inl e) \<Rightarrow> Some (Inl e)
                         | Some (Inr (v, ctx2)) \<Rightarrow>
                             parseObjectLoop n ctx2 baseIndent (objSet obj key v))
                   else parseObjectLoop n ctx1 baseIndent (setSafe obj key VNull))
           | None \<Rightarrow> parseObjectLoop n (advance ctx) baseIndent obj)))))))"
| "parseListArray 0 ctx baseIndent = None"
| "parseListArray (Suc n) ctx baseIndent =
     (if depth ctx + 1 > MAX_RECURSION_DEPTH
      then Some (Inl (GoonDecodeError recursionMessage (index ctx + 1)))
      else case parseListLoop n (advance (ctx\<lparr>depth := depth ctx + 1\<rparr>)) baseIndent [] of
             None \<Rightarrow> None
           | Some (Inl e) \<Rightarrow> Some (Inl e)
           | Some (Inr (items, ctx')) \<Rightarrow> Some (Inr (items, ctx'\<lparr>depth := depth ctx' - 1\<rparr>)))"
| "parseListLoop 0 ctx baseIndent items = None"
| "parseListLoop (Suc n) ctx baseIndent items =
     (if \<not> index ctx < length (lines ctx) then Some (Inr (items, ctx))
      else
        let line = lines ctx ! index ctx;
            currentIndent = getIndentLevel line (indent ctx);
            trimmed = trim line
        in if int currentIndent \<le> baseIndent then Some (Inr (items, ctx))
           else if startsWith trimmed ''- '' then
             parseListLoop n (advance ctx) baseIndent
               (items @ [parsePrimitive (drop 2 trimmed) (dictionary ctx)])
           else if trimmed = ''-'' then
             (let ctx1 = advance ctx;
                  nextIndent = (if index ctx1 < length (lines ctx1)
                                then getIndentLevel (lines ctx1 ! index ctx1) (indent ctx1)
                                else 0)
              in if index ctx1 < length (lines ctx1) \<and> nextIndent > currentIndent
                 then (case parseNestedValue n ctx1 nextIndent of
                         None \<Rightarrow> None
                       | Some (Inl e) \<Rightarrow> Some (Inl e)
                       | Some (Inr (v, ctx2)) \<Rightarrow> parseListLoop n ctx2 baseIndent (items @ [v]))
                 else parseListLoop n ctx1 baseIndent (items @ [VNull]))
           else parseListLoop n (advance ctx) baseIndent items)"
| "parseNestedValue 0 ctx minIndent = None"
| "parseNestedValue (Suc n) ctx minIndent =
     (if \<not> index ctx < length (lines ctx) then Some (Inr (VNull, ctx))
      else
        let trimmed = trim (lines ctx ! index ctx)
        in if trimmed = ''{}'' then Some (Inr (createSafeObject, advance ctx))
           else if trimmed = ''[]'' then Some (Inr (VArr [], advance ctx))
           else case nestedTabularMatch trimmed of
             Some (key, fieldsStr) \<Rightarrow>
               if key \<noteq> [] then parseObject n ctx minIndent
               else (case parseTabularArray ctx (int minIndent - 1) fieldsStr of
                       Inl e \<Rightarrow> Some (Inl e)
                     | Inr (rows, ctx') \<Rightarrow> Some (Inr (VArr rows, ctx')))
           | None \<Rightarrow>
               if trimmed = ''[]'' \<or> emptyArrMatch trimmed \<noteq> None then parseObject n ctx minIndent
               else if keyThen '':{['' trimmed \<or> bareKey trimmed then parseObject n ctx minIndent
               else Some (Inr (parsePrimitive trimmed (dictionary ctx), advance ctx)))"
  by pat_completeness auto
termination
  apply (relation "measure (\<lambda>x. case x of
       Inl (Inl (n, _)) \<Rightarrow> n
     | Inl (Inr (n, _)) \<Rightarrow> n
     | Inr (Inl (n, _)) \<Rightarrow> n
     | Inr (Inr (Inl (n, _))) \<Rightarrow> n
     | Inr (Inr (Inr (n, _))) \<Rightarrow> n)")
  apply (simp_all only: in_measure sum.case prod.case lessI wf_measure)
  done

definition parseRoot :: "nat \<Rightarrow> ParseContext \<Rightarrow> GoonValue parsed" where
  "parseRoot n ctx =
     (if \<not> index ctx < length (lines ctx) then Some (Inr (VNull, ctx))
      else
        let firstLine = trim (lines ctx ! index ctx)
        in if firstLine = ''{}'' then Some (Inr (createSafeObject, advance ctx))
           else if firstLine = ''[]'' then Some (Inr (VArr [], advance ctx))
           else case standaloneTabularMatch firstLine of
             Some fieldsStr \<Rightarrow>
               (case parseTabularArray ctx (- 1) fieldsStr of
                  Inl e \<Rightarrow> Some (Inl e)
                | Inr (rows, ctx') \<Rightarrow> Some (Inr (VArr rows, ctx')))
           | None \<Rightarrow>
           (case standaloneSimpleArrMatch firstLine of
             Some valuesStr \<Rightarrow>
               Some (Inr (VArr (parseRow valuesStr (dictionary ctx) (detectDelimiter valuesStr)),
                          advance ctx))
           | None \<Rightarrow>
               if firstLine = ''[]'' then
                 (case parseListArray n ctx (- 1) of
                    None \<Rightarrow> None
                  | Some (Inl e) \<Rightarrow> Some (Inl e)
                  | Some (Inr (items, ctx')) \<Rightarrow> Some (Inr (VArr items, ctx')))
               else if keyThen '':'' firstLine \<or> keyThen ''{'' firstLine \<or> keyThen ''['' firstLine
                       \<or> bareKey firstLine
               then parseObject n ctx 0
               else Some (Inr (parsePrimitive firstLine (dictionary ctx), advance ctx))))"

definition decodeLines :: "string \<Rightarrow> string list" where
  \<comment> \<open>\<open>input.split('\\n').filter((line) => line.trim() !== '')\<close>\<close>
  "decodeLines input = filter (\<lambda>line. trim line \<noteq> []) (splitOn (CHR 0x0A) input)"

definition stepBound :: "string list \<Rightarrow> nat" where
  \<comment> \<open>enough steps for any document of these lines\<close>
  "stepBound ls = 2 * length ls + 4"

definition decode :: "string \<Rightarrow> (thrown + GoonValue) option" where
  "decode input =
     (case validateInputSize input of
        Some e \<Rightarrow> Some (Inl e)
      | None \<Rightarrow>
          let ls = decodeLines input
          in if ls = [] then Some (Inr VNull)
             else
               let ind = detectIndent ls;
                   hasDict = startsWith (hd ls) ''$:'';
                   dict = (if hasDict then parseDictionary (drop 2 (hd ls)) else []);
                   startIndex = (if hasDict then 1 else 0)
               in if startIndex \<ge> length ls then Some (Inr VNull)
                  else case parseRoot (stepBound ls)
                              \<lparr>lines = ls, index = startIndex, dictionary = dict,
                               indent = ind, depth = 0\<rparr> of
                         None \<Rightarrow> None
                       | Some (Inl e) \<Rightarrow> Some (Inl e)
                       | Some (Inr (v, ctx')) \<Rightarrow> Some (Inr v))"

section \<open>Vocabulary of the properties\<close>

text \<open>
  Equality of a decoded value with an encoder input compares the trees and ignores how
  the objects were made: \<open>plain\<close> gives every object the ordinary prototype.
\<close>

fun plain :: "GoonValue \<Rightarrow> GoonValue" where
  "plain (VArr xs) = VArr (map plain xs)"
| "plain (VObj p kvs) = VObj ObjectPrototype (map (\<lambda>kv. (fst kv, plain (snd kv))) kvs)"
| "plain v = v"





text \<open>
  Tabular detection as the specification words it: the array is not empty, every element
  is a plain object, all elements have the same sorted list of keys, and the value under
  every key is a primitive.
\<close>

definition tabularSpec :: "GoonValue list \<Rightarrow> bool" where
  "tabularSpec arr =
     (arr \<noteq> [] \<and>
      (\<forall>item \<in> set arr. isPlainObject item) \<and>
      (\<forall>item \<in> set arr. sort (objectKeys item) = sort (objectKeys (hd arr))) \<and>
      (\<forall>item \<in> set arr. \<forall>key \<in> set (objectKeys item).
          \<exists>v. getField item key = Some v \<and> isPrimitive v))"

























section \<open>Evaluation rules\<close>

text \<open>
  The recursive definitions whose bodies start with a conditional are unfolded by the rules
  below, under their conditions, and the bounded parsers at a numeral bound.
\<close>

lemma showNat_lt: "n < 10 \<Longrightarrow> showNat n = [digitChar n]"
  by (simp add: showNat.simps)
lemma showNat_ge: "10 \<le> n \<Longrightarrow> showNat n = showNat (n div 10) @ [digitChar n]"
  by (subst showNat.simps) simp
declare parseObject.simps(2) [simp del] parseObjectLoop.simps(2) [simp del]
  parseListArray.simps(2) [simp del] parseListLoop.simps(2) [simp del]
  parseNestedValue.simps(2) [simp del]

lemmas parseObject_numeral = parseObject.simps(2)[of "pred_numeral k" for k, folded numeral_eq_Suc]
lemmas parseObjectLoop_numeral = parseObjectLoop.simps(2)[of "pred_numeral k" for k, folded numeral_eq_Suc]

lemmas str_ev = startsWith_def endsWith_def allDigits_def isDigit_def isWordChar_def isKeyChar_def
  isSpaceChar_def isLineTerminator_def trim_def parseInt_def digitVal_def digitChar_def
  showNat_lt showNat_ge replaceAll_def joinWith_def repeatStr_def
lemmas num_ev = isFinite_def padZeros_def significand_def numberToString_def looksNumber_def parseFloat_def
lemmas util_ev = needsQuoting_def endsWithStarDigits_def quoteString_def unquoteString_def
  parsePrimitive_def parseCell_def MAX_REPEAT_COUNT_def isSafeKey_def DANGEROUS_KEYS_def
  isArrayIndex_def
lemmas enc_ev = resolveOptions_def spread_def noOptions_def BASE_DEFAULTS_def
  emptyDictionary_def useDictionaryAt_def keyed_def safeEntries_def encode_def
  MAX_RECURSION_DEPTH_def
lemmas dec_ev = decode_def validateInputSize_def utf8Length_def MAX_INPUT_SIZE_def decodeLines_def
  stepBound_def parseRoot_def advance_def setSafe_def createSafeObject_def
  keyOf_def afterKey_def dotPlus_def spacesThenValue_def keyValueMatch_def emptyObjMatch_def
  emptyArrMatch_def skipLength_def fieldsMatch_def tabularMatch_def nestedTabularMatch_def
  standaloneTabularMatch_def simpleArrMatch_def standaloneSimpleArrMatch_def nestedKeyMatch_def
  keyThen_def bareKey_def getIndentLevel.simps MAX_RECURSION_DEPTH_def
  parseObject_numeral parseObjectLoop_numeral

section \<open>Cells and primitives\<close>

lemma lastIndexOf_none: "c \<notin> set s \<Longrightarrow> lastIndexOf c s = None"
  by (induction s) auto

lemma lastIndexOf_append:
  "c \<notin> set t \<Longrightarrow> lastIndexOf c (s @ c # t) = Some (length s)"
  by (induction s) (auto simp: lastIndexOf_none)

lemma star_not_digit: "list_all isDigit s \<Longrightarrow> CHR ''*'' \<notin> set s"
  by (induction s) (auto simp: isDigit_def)

lemma parseCell_repeat_bounds:
  "1 \<le> snd (parseCell cell dict) \<and> snd (parseCell cell dict) \<le> MAX_REPEAT_COUNT"
  by (auto simp: parseCell_def Let_def MAX_REPEAT_COUNT_def split: option.splits)

lemma parseCell_suffix:
  assumes "v \<noteq> []" "\<not> startsWith v [CHR 0x22]" "allDigits ds"
  shows "parseCell (v @ ''*'' @ ds) dict =
           (parsePrimitive v dict, max 1 (min (parseInt ds) MAX_REPEAT_COUNT))"
proof -
  have l: "lastIndexOf (CHR ''*'') (v @ ''*'' @ ds) = Some (length v)"
    using assms(3) lastIndexOf_append[of "CHR ''*''" ds v] star_not_digit[of ds]
    by (simp add: allDigits_def)
  have q: "\<not> startsWith (v @ ''*'' @ ds) [CHR 0x22]"
    using assms(1,2) by (cases v) (auto simp: startsWith_def)
  show ?thesis
    using assms(1,3) l q by (auto simp: parseCell_def Let_def max_def)
qed

text \<open>
  Claim C10. A run-length suffix with count 0 is a repeat of 1: \<open>parseCell\<close> never
  returns a repeat below 1, and an unquoted, non-empty cell \<open>v*0\<close> gives the value of
  \<open>v\<close> once, so that the row loop pushes exactly one element for it.
\<close>

theorem parseCell_zero_repeat:
  "1 \<le> snd (parseCell cell dict) \<and>
   (v \<noteq> [] \<and> \<not> startsWith v [CHR 0x22] \<longrightarrow>
      parseCell (v @ ''*0'') dict = (parsePrimitive v dict, 1) \<and>
      cellValues (v @ ''*0'') dict = [parsePrimitive v dict])"
proof -
  have z: "allDigits ''0''" "parseInt ''0'' = 0"
    by (simp_all add: allDigits_def isDigit_def parseInt_def digitVal_def)
  { assume a: "v \<noteq> []" "\<not> startsWith v [CHR 0x22]"
    have "parseCell (v @ ''*0'') dict = (parsePrimitive v dict, 1)"
      using parseCell_suffix[OF a z(1), of dict] z(2) by simp
    then have "parseCell (v @ ''*0'') dict = (parsePrimitive v dict, 1) \<and>
      cellValues (v @ ''*0'') dict = [parsePrimitive v dict]"
      by (simp add: cellValues_def) }
  then show ?thesis using parseCell_repeat_bounds[of cell dict] by blast
qed

theorem parseCell_zero_repeat_witness:
  "parseCell ''x*0'' [] = (VStr ''x'', 1) \<and> cellValues ''x*0'' [] = [VStr ''x''] \<and>
   parseRow ''a*0,b'' [] (CHR '','') = [VStr ''a'', VStr ''b'']"
proof -
  have "parsePrimitive ''x'' [] = VStr ''x''"
    by (simp add: str_ev num_ev util_ev)
  moreover have "parseRow ''a*0,b'' [] (CHR '','') = [VStr ''a'', VStr ''b'']"
    by (simp add: parseRow_def cellValues_def str_ev num_ev util_ev)
  ultimately show ?thesis
    using parseCell_zero_repeat[of "''x''" "[]" "''x''"] by (simp add: startsWith_def)
qed

lemma digits_no_star: "allDigits ds \<Longrightarrow> lastIndexOf (CHR ''*'') (CHR ''$'' # ds) = None"
  using star_not_digit[of ds] by (auto simp: allDigits_def lastIndexOf_none)

text \<open>
  Claim C6. A token \<open>$N\<close> (a dollar sign and decimal digits) resolves to the dictionary
  string at position \<open>N\<close> when \<open>N\<close> is below the number of entries, and is kept as
  the literal string of the token otherwise; nothing is thrown. The same holds for the
  token as a table or list cell.
\<close>

theorem dictionary_reference_resolution:
  "allDigits ds \<longrightarrow>
     parsePrimitive (''$'' @ ds) dict =
       (if parseInt ds < length dict then VStr (dict ! parseInt ds) else VStr (''$'' @ ds)) \<and>
     parseCell (''$'' @ ds) dict = (parsePrimitive (''$'' @ ds) dict, 1)"
proof
  assume a: "allDigits ds"
  then have ne: "ds \<noteq> []" by (simp add: allDigits_def)
  have lit: "''$'' @ ds \<noteq> ''_''" "''$'' @ ds \<noteq> ''T''" "''$'' @ ds \<noteq> ''F''" "''$'' @ ds \<noteq> ''~''"
    by simp_all
  have "parsePrimitive (''$'' @ ds) dict =
       (if parseInt ds < length dict then VStr (dict ! parseInt ds) else VStr (''$'' @ ds))"
    using a ne by (simp add: parsePrimitive_def startsWith_def Let_def)
  moreover have "parseCell (''$'' @ ds) dict = (parsePrimitive (''$'' @ ds) dict, 1)"
    using digits_no_star[OF a] by (simp add: parseCell_def startsWith_def)
  ultimately show "parsePrimitive (''$'' @ ds) dict =
       (if parseInt ds < length dict then VStr (dict ! parseInt ds) else VStr (''$'' @ ds)) \<and>
     parseCell (''$'' @ ds) dict = (parsePrimitive (''$'' @ ds) dict, 1)" by simp
qed

theorem dictionary_reference_resolution_witness:
  "parsePrimitive ''$1'' [''admin'', ''user''] = VStr ''user'' \<and>
   parsePrimitive ''$7'' [''admin'', ''user''] = VStr ''$7'' \<and>
   parseCell ''$7'' [''admin'', ''user''] = (VStr ''$7'', 1)"
proof -
  have d: "allDigits ''1''" "allDigits ''7''" "parseInt ''1'' = 1" "parseInt ''7'' = 7"
    by (simp_all add: allDigits_def isDigit_def parseInt_def digitVal_def)
  show ?thesis
    using dictionary_reference_resolution[of "''1''" "[''admin'', ''user'']"]
      dictionary_reference_resolution[of "''7''" "[''admin'', ''user'']"] d
    by simp
qed

section \<open>The simple object\<close>

text \<open>
  Claim C8. The object \<open>{"a":1,"b":"hello","c":true}\<close>, encoded in balanced mode with
  the dictionary disabled, is exactly the three lines \<open>a: 1\<close>, \<open>b: hello\<close> and
  \<open>c: T\<close>, and decoding that text gives the same fields with the same values, in the
  same order.
\<close>

theorem simple_object_scenario:
  "encode (VObj ObjectPrototype [(''a'', VNum (Dec 1 0)), (''b'', VStr ''hello''), (''c'', VBool True)])
      (noOptions\<lparr>o_mode := Some balanced, o_dictionary := Some False\<rparr>)
     = Inr ''a: 1\<newline>b: hello\<newline>c: T'' \<and>
   splitOn (CHR 0x0A) ''a: 1\<newline>b: hello\<newline>c: T'' = [''a: 1'', ''b: hello'', ''c: T''] \<and>
   decode ''a: 1\<newline>b: hello\<newline>c: T''
     = Some (Inr (VObj NullPrototype
          [(''a'', VNum (Dec 1 0)), (''b'', VStr ''hello''), (''c'', VBool True)])) \<and>
   plain (VObj NullPrototype [(''a'', VNum (Dec 1 0)), (''b'', VStr ''hello''), (''c'', VBool True)])
     = VObj ObjectPrototype [(''a'', VNum (Dec 1 0)), (''b'', VStr ''hello''), (''c'', VBool True)]"
proof -
  have e: "encode (VObj ObjectPrototype [(''a'', VNum (Dec 1 0)), (''b'', VStr ''hello''), (''c'', VBool True)])
      (noOptions\<lparr>o_mode := Some balanced, o_dictionary := Some False\<rparr>)
     = Inr ''a: 1\<newline>b: hello\<newline>c: T''"
    by (simp add: str_ev num_ev util_ev enc_ev)
  have s: "splitOn (CHR 0x0A) ''a: 1\<newline>b: hello\<newline>c: T'' = [''a: 1'', ''b: hello'', ''c: T'']"
    by simp
  have d: "decode ''a: 1\<newline>b: hello\<newline>c: T''
     = Some (Inr (VObj NullPrototype
          [(''a'', VNum (Dec 1 0)), (''b'', VStr ''hello''), (''c'', VBool True)]))"
    by (simp add: str_ev num_ev util_ev dec_ev Let_def)
  show ?thesis using e s d by simp
qed

section \<open>Blank input and the size limit\<close>

lemma utf8Length_foldl:
  "foldl (\<lambda>n c. n + (if of_char c < (128::nat) then 1 else 2)) (a::nat) s
     = a + foldl (\<lambda>n c. n + (if of_char c < (128::nat) then 1 else 2)) 0 s"
proof (induction s arbitrary: a)
  case Nil
  show ?case by simp
next
  case (Cons x xs)
  show ?case using Cons[of "a + (if of_char x < (128::nat) then 1 else 2)"]
      Cons[of "(if of_char x < (128::nat) then 1 else 2)"]
    by simp
qed

lemma utf8Length_Cons:
  "utf8Length (c # s) = (if of_char c < (128::nat) then 1 else 2) + utf8Length s"
  unfolding utf8Length_def using utf8Length_foldl[of "(if of_char c < (128::nat) then 1 else 2)" s]
  by simp

lemma utf8Length_Nil: "utf8Length [] = 0"
  by (simp add: utf8Length_def)

lemma utf8Length_replicate:
  "of_char c < (128::nat) \<Longrightarrow> utf8Length (replicate n c) = n"
  by (induction n) (simp_all add: utf8Length_Cons utf8Length_Nil)

lemma splitOn_replicate: "c \<noteq> d \<Longrightarrow> splitOn c (replicate n d) = [replicate n d]"
  by (induction n) auto

lemma trim_spaces: "trim (replicate n (CHR '' '')) = []"
proof -
  have "dropWhile isSpaceChar (replicate n (CHR '' '')) = []"
    by (induction n) (simp_all add: isSpaceChar_def)
  then show ?thesis by (simp add: trim_def)
qed

lemma validateInputSize_None: "utf8Length input \<le> MAX_INPUT_SIZE \<Longrightarrow> validateInputSize input = None"
  by (simp add: validateInputSize_def)

lemma decode_too_large:
  "MAX_INPUT_SIZE < utf8Length input \<Longrightarrow>
   decode input = Some (Inl (Error (''Input size '' @ showNat (utf8Length input)
                @ '' bytes exceeds maximum allowed size of '' @ showNat MAX_INPUT_SIZE @ '' bytes'')))"
  by (simp add: decode_def validateInputSize_def)

text \<open>
  Claim C9, amended. For every input within the input-size limit: when every line is
  empty or consists of white space only, \<open>decode\<close> returns \<open>null\<close>; and when the only
  line that is not blank starts with \<open>$:\<close>, it returns \<open>null\<close> as well.
\<close>

theorem blank_input_decodes_to_null:
  "utf8Length input \<le> MAX_INPUT_SIZE \<longrightarrow>
     ((\<forall>line \<in> set (splitOn (CHR 0x0A) input). trim line = []) \<longrightarrow> decode input = Some (Inr VNull)) \<and>
     (\<forall>l. decodeLines input = [l] \<and> startsWith l ''$:'' \<longrightarrow> decode input = Some (Inr VNull))"
proof (intro impI conjI allI)
  assume sz: "utf8Length input \<le> MAX_INPUT_SIZE"
  { assume "\<forall>line \<in> set (splitOn (CHR 0x0A) input). trim line = []"
    then have "decodeLines input = []"
      by (simp add: decodeLines_def filter_empty_conv)
    then show "decode input = Some (Inr VNull)"
      using sz by (simp add: decode_def validateInputSize_None) }
  { fix l assume "decodeLines input = [l] \<and> startsWith l ''$:''"
    then show "decode input = Some (Inr VNull)"
      using sz by (simp add: decode_def validateInputSize_None Let_def) }
qed

theorem blank_input_decodes_to_null_witness:
  "decode [] = Some (Inr VNull) \<and>
   decode ''  \<newline>\<newline>  '' = Some (Inr VNull) \<and>
   decode ''\<newline>$:$0=admin,$1=user\<newline>  '' = Some (Inr VNull)"
proof -
  have 1: "utf8Length [] \<le> MAX_INPUT_SIZE" "utf8Length ''  \<newline>\<newline>  '' \<le> MAX_INPUT_SIZE"
     "utf8Length ''\<newline>$:$0=admin,$1=user\<newline>  '' \<le> MAX_INPUT_SIZE"
    by (simp_all add: utf8Length_def MAX_INPUT_SIZE_def)
  have 2: "\<forall>line \<in> set (splitOn (CHR 0x0A) []). trim line = []"
    "\<forall>line \<in> set (splitOn (CHR 0x0A) ''  \<newline>\<newline>  ''). trim line = []"
    by (simp_all add: trim_def isSpaceChar_def)
  have 3: "decodeLines ''\<newline>$:$0=admin,$1=user\<newline>  '' = [''$:$0=admin,$1=user'']
     \<and> startsWith ''$:$0=admin,$1=user'' ''$:''"
    by (simp add: decodeLines_def trim_def isSpaceChar_def startsWith_def)
  show ?thesis
    using blank_input_decodes_to_null[of "[]"] blank_input_decodes_to_null[of "''  \<newline>\<newline>  ''"]
      blank_input_decodes_to_null[of "''\<newline>$:$0=admin,$1=user\<newline>  ''"] 1 2 3
    by blast
qed

text \<open>
  The claim as stated fails on an input of white space that exceeds the size limit: its
  only line is blank, and the size check comes first and throws.
\<close>

theorem blank_input_over_limit_counterexample:
  "splitOn (CHR 0x0A) (replicate (Suc MAX_INPUT_SIZE) (CHR '' ''))
     = [replicate (Suc MAX_INPUT_SIZE) (CHR '' '')] \<and>
   trim (replicate (Suc MAX_INPUT_SIZE) (CHR '' '')) = [] \<and>
   decode (replicate (Suc MAX_INPUT_SIZE) (CHR '' '')) \<noteq> Some (Inr VNull)"
proof -
  have "utf8Length (replicate (Suc MAX_INPUT_SIZE) (CHR '' '')) = Suc MAX_INPUT_SIZE"
    by (rule utf8Length_replicate) simp
  then have "MAX_INPUT_SIZE < utf8Length (replicate (Suc MAX_INPUT_SIZE) (CHR '' ''))" by simp
  from decode_too_large[OF this]
  have "decode (replicate (Suc MAX_INPUT_SIZE) (CHR '' '')) \<noteq> Some (Inr VNull)" by simp
  moreover have "splitOn (CHR 0x0A) (replicate (Suc MAX_INPUT_SIZE) (CHR '' ''))
      = [replicate (Suc MAX_INPUT_SIZE) (CHR '' '')]"
    by (rule splitOn_replicate) simp
  ultimately show ?thesis using trim_spaces[of "Suc MAX_INPUT_SIZE"] by simp
qed

section \<open>Keys and indentation\<close>














subsection \<open>Encoding a chain of objects\<close>




subsection \<open>Decoding a chain of objects\<close>





















section \<open>Tabular detection\<close>

lemma list_all_zip_same:
  "list_all (\<lambda>(a, b). a = b \<and> P a) (zip xs ys) \<Longrightarrow> length xs = length ys \<Longrightarrow>
   xs = ys \<and> (\<forall>a \<in> set xs. P a)"
  by (induction xs ys rule: list_induct2') auto

lemma list_all_zip_same_conv:
  "length xs = length ys \<Longrightarrow>
   list_all (\<lambda>(a, b). a = b \<and> P a) (zip xs ys) = (xs = ys \<and> (\<forall>a \<in> set xs. P a))"
  by (induction xs ys rule: list_induct2') auto

lemma keysMatch_iff:
  "keysMatch item firstKeys =
     (isPlainObject item \<and> sort (objectKeys item) = firstKeys \<and>
      (\<forall>key \<in> set (objectKeys item). \<exists>v. getField item key = Some v \<and> isPrimitive v))"
proof (cases "isPlainObject item \<and> length (sort (objectKeys item)) = length firstKeys")
  case True
  then show ?thesis
    unfolding keysMatch_def Let_def
    using list_all_zip_same_conv[of "sort (objectKeys item)" firstKeys
        "\<lambda>key. case getField item key of Some v \<Rightarrow> isPrimitive v | None \<Rightarrow> False"]
    by (auto split: option.splits)
next
  case False
  then show ?thesis unfolding keysMatch_def Let_def by auto
qed

text \<open>
  Claim C4, amended. \<open>isTabularArray arr\<close> is true if and only if \<open>arr\<close> is not empty,
  every element is a plain object, the first element has at least one key, all elements
  have the same sorted list of keys, and the value under every key is a primitive.
\<close>

theorem isTabularArray_exact:
  "isTabularArray arr = (tabularSpec arr \<and> objectKeys (hd arr) \<noteq> [])"
proof (cases "arr = []")
  case True
  then show ?thesis by (simp add: isTabularArray_def tabularSpec_def)
next
  case False
  have s: "sort ks = [] \<longleftrightarrow> ks = []" for ks :: "string list"
    by (metis length_sort length_0_conv)
  show ?thesis
    using False unfolding isTabularArray_def tabularSpec_def Let_def
    by (auto simp: keysMatch_iff list_all_iff s)
qed

theorem isTabularArray_exact_witness:
  "isTabularArray [VObj ObjectPrototype [(''id'', VNum (Dec 1 0)), (''name'', VStr ''Alice'')],
                   VObj ObjectPrototype [(''name'', VStr ''Bob''), (''id'', VNum (Dec 2 0))]] \<and>
   \<not> isTabularArray [VObj ObjectPrototype [(''id'', VNum (Dec 1 0))],
                     VObj ObjectPrototype [(''id'', VArr [])]] \<and>
   \<not> isTabularArray [VObj ObjectPrototype [(''id'', VNum (Dec 1 0))],
                     VObj ObjectPrototype [(''id'', VNum (Dec 2 0)), (''x'', VNull)]]"
  unfolding isTabularArray_exact tabularSpec_def
  by (simp add: objectKeys_def getField_def)

text \<open>
  The claim as stated fails on an array of empty objects, which meets every condition of
  the claim and is rejected by the guard on the first element's keys.
\<close>

theorem isTabularArray_empty_objects_counterexample:
  "tabularSpec [VObj ObjectPrototype [], VObj ObjectPrototype []] \<and>
   \<not> isTabularArray [VObj ObjectPrototype [], VObj ObjectPrototype []]"
  by (simp add: tabularSpec_def isTabularArray_def objectKeys_def)

section \<open>Dictionary builder\<close>






























section \<open>Dangerous keys\<close>

subsection \<open>The encoder\<close>

































subsection \<open>The decoder\<close>
































section \<open>The limits\<close>

subsection \<open>The depth that the encoder counts\<close>




















subsection \<open>The depth of decoded values\<close>




































subsection \<open>Repeats\<close>















end
